theory Spec2Isabelle
  imports Main "HOL-Library.Sublist"
begin

section \<open>Exceptions\<close>

text \<open>
  The exceptions of Python and of the framework that the modelled code can raise. An
  operation that can raise returns a sum, \<open>Inl\<close> the exception.
\<close>

datatype exn =
    Http404 | DoesNotExist | MultipleObjectsReturned | NoReverseMatch | TypeError
  | ValueError | DatabaseError | IntegrityError
  | UnicodeEncodeError | UnicodeDecodeError

section \<open>Python strings\<close>

text \<open>
  A Python \<^verbatim>\<open>str\<close> is a sequence of Unicode code points. Titles are arbitrary text, so a
  code point is a natural number and a string a list of them. \<open>py\<close> embeds an ASCII
  literal, so that \<open>py ''about/''\<close> stands for the Python literal \<^verbatim>\<open>'about/'\<close>.
\<close>

type_synonym codepoint = nat
type_synonym str = "codepoint list"

definition py :: "string \<Rightarrow> str" where
  "py s = map of_char s"

definition hyphen :: codepoint where
  "hyphen = of_char CHR ''-''"

definition underscore :: codepoint where
  "underscore = of_char CHR ''_''"

definition slash :: codepoint where
  "slash = of_char CHR ''/''"

definition is_ascii :: "codepoint \<Rightarrow> bool" where
  "is_ascii c \<longleftrightarrow> c < 128"

definition is_upper :: "codepoint \<Rightarrow> bool" where
  "is_upper c \<longleftrightarrow> of_char CHR ''A'' \<le> c \<and> c \<le> of_char CHR ''Z''"

definition is_lower :: "codepoint \<Rightarrow> bool" where
  "is_lower c \<longleftrightarrow> of_char CHR ''a'' \<le> c \<and> c \<le> of_char CHR ''z''"

definition is_digit :: "codepoint \<Rightarrow> bool" where
  "is_digit c \<longleftrightarrow> of_char CHR ''0'' \<le> c \<and> c \<le> of_char CHR ''9''"

text \<open>
  The classes \<^verbatim>\<open>\w\<close> and \<^verbatim>\<open>\s\<close> of Python's \<^verbatim>\<open>re\<close> on the ASCII range, which is all
  that reaches them in \<open>slugify\<close> (its input has passed
  \<^verbatim>\<open>encode('ascii', 'ignore')\<close>): \<^verbatim>\<open>\w\<close> is \<^verbatim>\<open>[a-zA-Z0-9_]\<close>, and \<^verbatim>\<open>\s\<close> is the
  ASCII white space of \<^verbatim>\<open>str.isspace\<close>: tab, line feed, vertical tab, form feed,
  carriage return (9 to 13), the four separators 28 to 31, and the space.
\<close>

definition is_word :: "codepoint \<Rightarrow> bool" where
  "is_word c \<longleftrightarrow> is_lower c \<or> is_upper c \<or> is_digit c \<or> c = underscore"

definition is_space :: "codepoint \<Rightarrow> bool" where
  "is_space c \<longleftrightarrow> (9 \<le> c \<and> c \<le> 13) \<or> (28 \<le> c \<and> c \<le> 31) \<or> c = of_char CHR '' ''"

text \<open>\<^verbatim>\<open>str.lower()\<close> on an ASCII string: \<^verbatim>\<open>A-Z\<close> move to \<^verbatim>\<open>a-z\<close>, nothing else changes.\<close>

definition lower_cp :: "codepoint \<Rightarrow> codepoint" where
  "lower_cp c = (if is_upper c then c + 32 else c)"

definition lower :: "str \<Rightarrow> str" where
  "lower s = map lower_cp s"

text \<open>\<^verbatim>\<open>s.encode('ascii', 'ignore').decode('ascii')\<close>: the code points outside ASCII are dropped.\<close>

definition encode_ascii_ignore :: "str \<Rightarrow> str" where
  "encode_ascii_ignore s = filter is_ascii s"

text \<open>\<^verbatim>\<open>re.sub(cls, '', s)\<close> for a one-character class \<open>cls\<close>: every match is deleted.\<close>

definition re_sub_delete :: "(codepoint \<Rightarrow> bool) \<Rightarrow> str \<Rightarrow> str" where
  "re_sub_delete cls s = filter (\<lambda>c. \<not> cls c) s"

text \<open>
  \<^verbatim>\<open>re.sub(cls+, repl, s)\<close>: scanning from the left, every maximal run of characters of
  the class is replaced by \<open>repl\<close>.
\<close>

function re_sub_runs :: "(codepoint \<Rightarrow> bool) \<Rightarrow> str \<Rightarrow> str \<Rightarrow> str" where
  "re_sub_runs cls repl [] = []"
| "re_sub_runs cls repl (c # cs) =
     (if cls c then repl @ re_sub_runs cls repl (dropWhile cls cs)
      else c # re_sub_runs cls repl cs)"
  by pat_completeness auto
termination
  by (relation "measure (\<lambda>(cls, repl, s). length s)")
     (auto simp: length_dropWhile_le le_imp_less_Suc)

text \<open>\<^verbatim>\<open>s.strip(chars)\<close>: the characters of \<open>chars\<close> are removed from both ends.\<close>

definition strip :: "codepoint list \<Rightarrow> str \<Rightarrow> str" where
  "strip chars s = rev (dropWhile (\<lambda>c. c \<in> set chars) (rev (dropWhile (\<lambda>c. c \<in> set chars) s)))"

section \<open>The slug of a title: \<^verbatim>\<open>django.utils.text.slugify\<close>\<close>

text \<open>
  \<^verbatim>\<open>Snippet.save\<close> derives the slug with the framework's \<^verbatim>\<open>slugify\<close> (Django 3.2 and
  later), called with one argument, so \<^verbatim>\<open>allow_unicode\<close> is \<^verbatim>\<open>False\<close>:

  \<^verbatim>\<open>value = unicodedata.normalize("NFKD", value).encode("ascii", "ignore").decode("ascii")\<close>
  \<^verbatim>\<open>value = re.sub(r"[^\w\s-]", "", value.lower())\<close>
  \<^verbatim>\<open>return re.sub(r"[-\s]+", "-", value).strip("-_")\<close>

  The Unicode normalisation form NFKD is a table of the Unicode Character Database; it is
  the parameter \<open>nfkd\<close>, and every theorem below holds for whatever the table is,
  unless it names a fact of the table as a hypothesis.

  The steps of the first line that can raise are \<^verbatim>\<open>encode\<close> and \<^verbatim>\<open>decode\<close>:
  \<^verbatim>\<open>str.encode('ascii', errors)\<close> raises on a code point outside ASCII when \<open>errors\<close> is
  \<^verbatim>\<open>'strict'\<close> and drops it when \<open>errors\<close> is \<^verbatim>\<open>'ignore'\<close>, and \<^verbatim>\<open>bytes.decode('ascii')\<close>
  raises on a byte outside ASCII. The two substitutions, \<^verbatim>\<open>lower\<close> and \<^verbatim>\<open>strip\<close> are
  text operations that do not raise; they are \<open>slug_of_ascii\<close>.
\<close>

datatype errors = Strict | Ignore

definition encode_ascii :: "errors \<Rightarrow> str \<Rightarrow> exn + str" where
  "encode_ascii mode s =
     (case mode of
        Strict \<Rightarrow> (if list_all is_ascii s then Inr s else Inl UnicodeEncodeError)
      | Ignore \<Rightarrow> Inr (encode_ascii_ignore s))"

definition decode_ascii :: "str \<Rightarrow> exn + str" where
  "decode_ascii b = (if list_all is_ascii b then Inr b else Inl UnicodeDecodeError)"

definition slug_of_ascii :: "str \<Rightarrow> str" where
  "slug_of_ascii v1 =
     (let v2 = re_sub_delete (\<lambda>c. \<not> (is_word c \<or> is_space c \<or> c = hyphen)) (lower v1)
      in strip [hyphen, underscore]
           (re_sub_runs (\<lambda>c. c = hyphen \<or> is_space c) [hyphen] v2))"

text \<open>The call of \<^verbatim>\<open>slugify\<close>, with the exception of each step that can raise.\<close>

definition slugify_call :: "(str \<Rightarrow> str) \<Rightarrow> str \<Rightarrow> exn + str" where
  "slugify_call nfkd v =
     (case encode_ascii Ignore (nfkd v) of
        Inl e \<Rightarrow> Inl e
      | Inr b \<Rightarrow>
          (case decode_ascii b of
             Inl e \<Rightarrow> Inl e
           | Inr v1 \<Rightarrow> Inr (slug_of_ascii v1)))"

text \<open>
  The value of \<^verbatim>\<open>slugify\<close>: what the call returns (\<open>slugify_call_returns\<close> below shows that
  the call always returns, and returns this).
\<close>

definition slugify :: "(str \<Rightarrow> str) \<Rightarrow> str \<Rightarrow> str" where
  "slugify nfkd v = slug_of_ascii (encode_ascii_ignore (nfkd v))"

text \<open>
  Two facts of the NFKD table are named as hypotheses where a theorem needs them. The
  first: NFKD leaves ASCII text as it is (no ASCII character has a decomposition).
\<close>

definition nfkd_fixes_ascii :: "(str \<Rightarrow> str) \<Rightarrow> bool" where
  "nfkd_fixes_ascii nfkd \<longleftrightarrow> (\<forall>s. list_all is_ascii s \<longrightarrow> nfkd s = s)"

text \<open>
  The white space of Python (\<^verbatim>\<open>str.isspace\<close>, and \<^verbatim>\<open>\s\<close> on a \<^verbatim>\<open>str\<close>): the ASCII white
  space and U+0085, U+00A0, U+1680, U+2000 to U+200A, U+2028, U+2029, U+202F, U+205F
  and U+3000.
\<close>

definition is_unicode_space :: "codepoint \<Rightarrow> bool" where
  "is_unicode_space c \<longleftrightarrow>
     is_space c \<or> c = 133 \<or> c = 160 \<or> c = 5760 \<or> (8192 \<le> c \<and> c \<le> 8202) \<or>
     c = 8232 \<or> c = 8233 \<or> c = 8239 \<or> c = 8287 \<or> c = 12288"

text \<open>
  The second fact: the normal form of white space holds no ASCII character but white
  space. (NFKD maps U+00A0, U+2000 to U+200A, U+202F, U+205F and U+3000 to the space
  U+0020, and leaves every other white space character as it is.)
\<close>

definition nfkd_space_stays_blank :: "(str \<Rightarrow> str) \<Rightarrow> bool" where
  "nfkd_space_stays_blank nfkd \<longleftrightarrow>
     (\<forall>t. list_all is_unicode_space t \<longrightarrow>
        list_all (\<lambda>c. is_space c \<or> \<not> is_ascii c) (nfkd t))"

text \<open>
  The table on text made of ASCII and white space only, for use at concrete inputs:
  the compatibility spaces become U+0020 and every other character stays.
\<close>

definition nfkd_of_space :: "codepoint \<Rightarrow> codepoint" where
  "nfkd_of_space c =
     (if c = 160 \<or> (8192 \<le> c \<and> c \<le> 8202) \<or> c = 8239 \<or> c = 8287 \<or> c = 12288
      then 32 else c)"

definition nfkd_spaces :: "str \<Rightarrow> str" where
  "nfkd_spaces s = map nfkd_of_space s"

section \<open>The slug in words\<close>



fun split_at :: "(codepoint \<Rightarrow> bool) \<Rightarrow> str \<Rightarrow> str list" where
  "split_at sep [] = [[]]"
| "split_at sep (c # cs) =
     (if sep c then [] # split_at sep cs
      else (case split_at sep cs of
              [] \<Rightarrow> [[c]]
            | w # ws \<Rightarrow> (c # w) # ws))"




section \<open>The Snippet model and the Record Store\<close>

text \<open>
  \<^verbatim>\<open>class Snippet(models.Model)\<close>: the three declared fields and the primary key the
  framework adds; \<open>pk = None\<close> is an instance that has not been written yet. The slug
  field is declared \<^verbatim>\<open>null=True\<close>, so it is optional. The table is the list of its rows,
  each an instance with its key set.
\<close>

record snippet =
  pk :: "nat option"
  title :: str
  slug :: "str option"
  body :: str

type_synonym table = "snippet list"

definition pk_val :: "snippet \<Rightarrow> nat" where
  "pk_val r = (case pk r of None \<Rightarrow> 0 | Some k \<Rightarrow> k)"

definition next_pk :: "table \<Rightarrow> nat" where
  "next_pk db = Suc (foldr max (map pk_val db) 0)"

text \<open>
  \<^verbatim>\<open>Snippet.save(self, *args, **kwargs)\<close> hands its arguments on to the framework's
  \<^verbatim>\<open>Model.save(force_insert=False, force_update=False, using=None, update_fields=None)\<close>.
  They are the record \<open>save_args\<close> (\<^verbatim>\<open>using\<close> names the database; there is one store);
  \<open>no_args\<close> is the call \<^verbatim>\<open>save()\<close>.
\<close>

record save_args =
  force_insert :: bool
  force_update :: bool
  update_fields :: "str list option"

definition no_args :: save_args where
  "no_args = \<lparr>force_insert = False, force_update = False, update_fields = None\<rparr>"

text \<open>
  What a call of \<open>save\<close> leaves behind: the instance, the table, and the exception the
  call raised, if any. (The instance is an object the call mutates, so it has a state
  after the call also when the call raises.)
\<close>

record saved =
  self_after :: snippet
  db_after :: table
  raised :: "exn option"

definition returned :: "snippet \<Rightarrow> table \<Rightarrow> saved" where
  "returned self db = \<lparr>self_after = self, db_after = db, raised = None\<rparr>"

definition raising :: "exn \<Rightarrow> snippet \<Rightarrow> table \<Rightarrow> saved" where
  "raising e self db = \<lparr>self_after = self, db_after = db, raised = Some e\<rparr>"

text \<open>
  The names of the fields a write can be restricted to, the fields a call writes, and
  an \<^verbatim>\<open>UPDATE\<close> of those fields of a row from the instance.
\<close>

definition all_fields :: "str list" where
  "all_fields = [py ''title'', py ''slug'', py ''body'']"

definition written_fields :: "save_args \<Rightarrow> str list" where
  "written_fields args = (case update_fields args of None \<Rightarrow> all_fields | Some fs \<Rightarrow> fs)"

definition write_fields :: "str list \<Rightarrow> snippet \<Rightarrow> snippet \<Rightarrow> snippet" where
  "write_fields fs self r =
     r\<lparr>title := (if py ''title'' \<in> set fs then title self else title r),
       slug := (if py ''slug'' \<in> set fs then slug self else slug r),
       body := (if py ''body'' \<in> set fs then body self else body r)\<rparr>"

text \<open>
  The database may refuse a row: the columns are declared with a length
  (\<^verbatim>\<open>CharField(max_length=80)\<close>, and a \<^verbatim>\<open>SlugField\<close> is 50 long), and a database has text
  it cannot hold. Which rows a database refuses depends on the database; it is the
  parameter \<open>rejects\<close>, and a refused write raises and stores nothing. \<open>rejects_nothing\<close>
  is a database that takes every row.

  An \<^verbatim>\<open>INSERT\<close> of a row: a key that is already in the table is an \<^verbatim>\<open>IntegrityError\<close>.
\<close>

definition rejects_nothing :: "snippet \<Rightarrow> bool" where
  "rejects_nothing r \<longleftrightarrow> False"

definition insert_row :: "(snippet \<Rightarrow> bool) \<Rightarrow> snippet \<Rightarrow> snippet \<Rightarrow> table \<Rightarrow> saved" where
  "insert_row rejects self row db =
     (if list_ex (\<lambda>r. pk r = pk row) db then raising IntegrityError self db
      else if rejects row then raising DatabaseError self db
      else returned row (db @ [row]))"

text \<open>
  The framework's \<^verbatim>\<open>Model.save\<close>, in the order of its source. Forcing an insert together
  with an update is a \<^verbatim>\<open>ValueError\<close>; an empty \<^verbatim>\<open>update_fields\<close> returns at once and writes
  nothing; a name in \<^verbatim>\<open>update_fields\<close> that is not a field is a \<^verbatim>\<open>ValueError\<close>. Then, for an
  instance without a key: an update cannot be forced (\<^verbatim>\<open>ValueError\<close>), otherwise the row
  is inserted under the next key, which the instance takes. For an instance with a
  key, unless an insert is forced: the row of that key is updated, in the fields the
  call writes; when there is no such row, a forced or restricted update is a
  \<^verbatim>\<open>DatabaseError\<close>, and a plain save inserts the row. A forced insert inserts.
\<close>

definition Model_save :: "(snippet \<Rightarrow> bool) \<Rightarrow> save_args \<Rightarrow> snippet \<Rightarrow> table \<Rightarrow> saved" where
  "Model_save rejects args self db =
     (let restricted = (case update_fields args of None \<Rightarrow> False | Some fs \<Rightarrow> fs \<noteq> [])
      in
      if force_insert args \<and> (force_update args \<or> restricted) then raising ValueError self db
      else if update_fields args = Some [] then returned self db
      else if \<not> set (written_fields args) \<subseteq> set all_fields then raising ValueError self db
      else
        (case pk self of
           None \<Rightarrow>
             (if force_update args \<or> restricted then raising ValueError self db
              else insert_row rejects self (self\<lparr>pk := Some (next_pk db)\<rparr>) db)
         | Some k \<Rightarrow>
             (if \<not> force_insert args \<and> list_ex (\<lambda>r. pk r = Some k) db
              then
                (let db' = map (\<lambda>r. if pk r = Some k
                                      then write_fields (written_fields args) self r
                                      else r) db
                 in if list_ex (\<lambda>r. pk r = Some k \<and> rejects r) db'
                    then raising DatabaseError self db
                    else returned self db')
              else if force_update args \<or> restricted then raising DatabaseError self db
              else insert_row rejects self self db)))"

text \<open>
  \<^verbatim>\<open>Snippet.save\<close>: \<^verbatim>\<open>self.slug = slugify(self.title)\<close>, then \<^verbatim>\<open>super().save(*args, **kwargs)\<close>.
\<close>

definition save ::
  "(str \<Rightarrow> str) \<Rightarrow> (snippet \<Rightarrow> bool) \<Rightarrow> save_args \<Rightarrow> snippet \<Rightarrow> table \<Rightarrow> saved" where
  "save nfkd rejects args self db =
     (case slugify_call nfkd (title self) of
        Inl e \<Rightarrow> raising e self db
      | Inr s \<Rightarrow> Model_save rejects args (self\<lparr>slug := Some s\<rparr>) db)"

text \<open>
  A sequence of calls of \<open>save\<close>, each with its arguments and on an instance of any
  content, one after the other; a call that raises leaves the table as it was.
\<close>

definition save_all ::
  "(str \<Rightarrow> str) \<Rightarrow> (snippet \<Rightarrow> bool) \<Rightarrow> (save_args \<times> snippet) list \<Rightarrow> table \<Rightarrow> table" where
  "save_all nfkd rejects calls db =
     fold (\<lambda>c d. db_after (save nfkd rejects (fst c) (snd c) d)) calls db"

definition stored :: "table \<Rightarrow> nat \<Rightarrow> snippet option" where
  "stored db k = find (\<lambda>r. pk r = Some k) db"

text \<open>
  \<^verbatim>\<open>Snippet.get_absolute_url\<close>: \<^verbatim>\<open>f'/{self.slug}'\<close>. A null slug is formatted as the text
  \<^verbatim>\<open>None\<close>.
\<close>

definition format_slug :: "str option \<Rightarrow> str" where
  "format_slug s = (case s of None \<Rightarrow> py ''None'' | Some t \<Rightarrow> t)"

definition get_absolute_url :: "snippet \<Rightarrow> str" where
  "get_absolute_url self = py ''/'' @ format_slug (slug self)"

section \<open>Responses\<close>

record response =
  status_code :: nat
  content :: str

text \<open>\<^verbatim>\<open>HttpResponse(content)\<close>: the status is 200 unless given.\<close>

definition HttpResponse :: "str \<Rightarrow> response" where
  "HttpResponse c = \<lparr>status_code = 200, content = c\<rparr>"

text \<open>
  What the client sees of a handler's outcome: the framework turns an \<^verbatim>\<open>Http404\<close> that
  leaves a handler into a response of status 404, and any other exception into a
  server error, status 500.
\<close>

definition client_status :: "exn + response \<Rightarrow> nat" where
  "client_status out =
     (case out of Inr r \<Rightarrow> status_code r | Inl Http404 \<Rightarrow> 404 | Inl _ \<Rightarrow> 500)"

section \<open>The page handlers (views.py)\<close>

text \<open>
  \<^verbatim>\<open>QuerySet.get(slug=slug)\<close>: the rows whose slug equals the argument; exactly one is
  returned, none raises \<^verbatim>\<open>DoesNotExist\<close>, more than one raises
  \<^verbatim>\<open>MultipleObjectsReturned\<close>.
\<close>

definition objects_get :: "table \<Rightarrow> str \<Rightarrow> exn + snippet" where
  "objects_get db s =
     (case filter (\<lambda>r. slug r = Some s) db of
        [] \<Rightarrow> Inl DoesNotExist
      | [r] \<Rightarrow> Inr r
      | _ \<Rightarrow> Inl MultipleObjectsReturned)"

text \<open>
  \<^verbatim>\<open>get_object_or_404(Snippet, slug=slug)\<close>: \<^verbatim>\<open>DoesNotExist\<close> is caught and raised again
  as \<^verbatim>\<open>Http404\<close>; every other outcome passes through.
\<close>

definition get_object_or_404 :: "table \<Rightarrow> str \<Rightarrow> exn + snippet" where
  "get_object_or_404 db s =
     (case objects_get db s of
        Inl DoesNotExist \<Rightarrow> Inl Http404
      | Inl e \<Rightarrow> Inl e
      | Inr r \<Rightarrow> Inr r)"

definition about :: "exn + response" where
  "about = Inr (HttpResponse (py ''about page''))"

definition snippet_detail :: "table \<Rightarrow> str \<Rightarrow> exn + response" where
  "snippet_detail db s =
     (case get_object_or_404 db s of
        Inl e \<Rightarrow> Inl e
      | Inr snippet \<Rightarrow> Inr (HttpResponse (py ''the detailview for slug of '' @ s)))"

section \<open>The Route Table (urls.py)\<close>

text \<open>
  A route of \<^verbatim>\<open>path()\<close> is literal text with parameters \<^verbatim>\<open><converter:name>\<close> in it.
  The one converter the routes use is \<^verbatim>\<open>slug\<close>, whose pattern is \<^verbatim>\<open>[-a-zA-Z0-9_]+\<close>.
  So \<^verbatim>\<open>'<slug:slug>/'\<close> is the parameter \<open>slug\<close> followed by the literal \<^verbatim>\<open>/\<close>.
\<close>

datatype converter = SlugConverter

datatype part = Literal str | Param converter str

fun converter_class :: "converter \<Rightarrow> codepoint \<Rightarrow> bool" where
  "converter_class SlugConverter c \<longleftrightarrow>
     c = hyphen \<or> is_lower c \<or> is_upper c \<or> is_digit c \<or> c = underscore"

datatype view = About | Snippet_detail

record url_pattern =
  route :: "part list"
  callback :: view
  name :: "str option"

definition path :: "part list \<Rightarrow> view \<Rightarrow> str option \<Rightarrow> url_pattern" where
  "path r v n = \<lparr>route = r, callback = v, name = n\<rparr>"

definition urlpatterns :: "url_pattern list" where
  "urlpatterns =
     [path [Param SlugConverter (py ''slug''), Literal (py ''/'')] Snippet_detail None,
      path [Literal (py ''about/'')] About (Some (py ''about''))]"

text \<open>
  A route matches a whole path (the pattern of an endpoint is anchored at both ends). A
  parameter takes one or more characters of its converter's class, the longest run
  first and shorter ones when the rest of the route does not match after it, as the
  regular expression's \<^verbatim>\<open>+\<close> does. The result is the keyword arguments of the handler.
\<close>

primrec try_lengths :: "(nat \<Rightarrow> 'a option) \<Rightarrow> nat \<Rightarrow> 'a option" where
  "try_lengths f 0 = None"
| "try_lengths f (Suc k) = (case f (Suc k) of Some r \<Rightarrow> Some r | None \<Rightarrow> try_lengths f k)"

primrec match_route :: "part list \<Rightarrow> str \<Rightarrow> (str \<times> str) list option" where
  "match_route [] s = (if s = [] then Some [] else None)"
| "match_route (p # ps) s =
     (case p of
        Literal l \<Rightarrow>
          (if take (length l) s = l then match_route ps (drop (length l) s) else None)
      | Param conv n \<Rightarrow>
          try_lengths
            (\<lambda>k. case match_route ps (drop k s) of
                   None \<Rightarrow> None
                 | Some kw \<Rightarrow> Some ((n, take k s) # kw))
            (length (takeWhile (converter_class conv) s)))"

text \<open>
  The resolver: the leading \<^verbatim>\<open>/\<close> of the request path is consumed, and the rest is tried
  against the patterns in the order of the list; the first pattern that matches decides.
\<close>

fun first_match :: "url_pattern list \<Rightarrow> str \<Rightarrow> (view \<times> (str \<times> str) list) option" where
  "first_match [] s = None"
| "first_match (p # ps) s =
     (case match_route (route p) s of
        Some kw \<Rightarrow> Some (callback p, kw)
      | None \<Rightarrow> first_match ps s)"

definition resolve :: "url_pattern list \<Rightarrow> str \<Rightarrow> (view \<times> (str \<times> str) list) option" where
  "resolve pats p =
     (case p of
        [] \<Rightarrow> None
      | c # rest \<Rightarrow> (if c = slash then first_match pats rest else None))"

text \<open>
  The handler is called with the keyword arguments of the match; a call whose arguments
  do not fit the handler's signature is a \<^verbatim>\<open>TypeError\<close>. A path that no pattern matches
  is answered with \<^verbatim>\<open>Http404\<close>.
\<close>

definition call_view :: "view \<Rightarrow> table \<Rightarrow> (str \<times> str) list \<Rightarrow> exn + response" where
  "call_view v db kw =
     (case v of
        About \<Rightarrow> (if kw = [] then about else Inl TypeError)
      | Snippet_detail \<Rightarrow>
          (case kw of
             [(n, s)] \<Rightarrow> (if n = py ''slug'' then snippet_detail db s else Inl TypeError)
           | _ \<Rightarrow> Inl TypeError))"

definition get_response :: "table \<Rightarrow> str \<Rightarrow> exn + response" where
  "get_response db p =
     (case resolve urlpatterns p of
        None \<Rightarrow> Inl Http404
      | Some (v, kw) \<Rightarrow> call_view v db kw)"

text \<open>
  \<^verbatim>\<open>reverse(name)\<close> with no arguments: the path of a pattern of that name whose route has
  no parameter, the leading \<^verbatim>\<open>/\<close> put back; \<^verbatim>\<open>NoReverseMatch\<close> when there is none.
\<close>

fun literal_text :: "part list \<Rightarrow> str option" where
  "literal_text [] = Some []"
| "literal_text (Literal l # ps) = (case literal_text ps of None \<Rightarrow> None | Some t \<Rightarrow> Some (l @ t))"
| "literal_text (Param conv n # ps) = None"

fun reverse_in :: "url_pattern list \<Rightarrow> str \<Rightarrow> exn + str" where
  "reverse_in [] n = Inl NoReverseMatch"
| "reverse_in (p # ps) n =
     (if name p = Some n
      then (case literal_text (route p) of
              Some t \<Rightarrow> Inr (slash # t)
            | None \<Rightarrow> reverse_in ps n)
      else reverse_in ps n)"

definition reverse :: "str \<Rightarrow> exn + str" where
  "reverse n = reverse_in (rev urlpatterns) n"

section \<open>The sitemap sources (sitemaps.py)\<close>

datatype sitemap = StaticViewSitemap | SnippetSitemap

text \<open>
  \<^verbatim>\<open>StaticViewSitemap.items\<close> is \<^verbatim>\<open>['about']\<close> and its \<^verbatim>\<open>location\<close> is \<^verbatim>\<open>reverse(item)\<close>.
  \<^verbatim>\<open>SnippetSitemap.items\<close> is \<^verbatim>\<open>Snippet.objects.all()\<close>; it declares no \<^verbatim>\<open>location\<close>, so
  the framework's default applies, \<^verbatim>\<open>item.get_absolute_url()\<close>. The locations of a source
  are those of its items in order; an exception in one of them ends the enumeration.
\<close>

definition StaticViewSitemap_items :: "str list" where
  "StaticViewSitemap_items = [py ''about'']"

definition StaticViewSitemap_location :: "str \<Rightarrow> exn + str" where
  "StaticViewSitemap_location item = reverse item"

definition SnippetSitemap_items :: "table \<Rightarrow> snippet list" where
  "SnippetSitemap_items db = db"

definition SnippetSitemap_location :: "snippet \<Rightarrow> exn + str" where
  "SnippetSitemap_location item = Inr (get_absolute_url item)"

fun collect :: "(exn + 'a) list \<Rightarrow> exn + 'a list" where
  "collect [] = Inr []"
| "collect (Inl e # xs) = Inl e"
| "collect (Inr x # xs) = (case collect xs of Inl e \<Rightarrow> Inl e | Inr ys \<Rightarrow> Inr (x # ys))"

definition locations :: "sitemap \<Rightarrow> table \<Rightarrow> exn + str list" where
  "locations sm db =
     (case sm of
        StaticViewSitemap \<Rightarrow> collect (map StaticViewSitemap_location StaticViewSitemap_items)
      | SnippetSitemap \<Rightarrow> collect (map SnippetSitemap_location (SnippetSitemap_items db)))"

text \<open>
  Modelled from the spec: the registry that hands the two sources to the framework's
  sitemap view is not among the source files (section 4.4: ``supply two URL sources to
  the external sitemap-serialization collaborator''; section 6: ``one url entry per
  static route and per stored Snippet''). The enumeration runs through the registered
  sources in their order and joins their locations.
\<close>

definition sitemap_urls :: "sitemap list \<Rightarrow> table \<Rightarrow> exn + str list" where
  "sitemap_urls sms db =
     (case collect (map (\<lambda>sm. locations sm db) sms) of
        Inl e \<Rightarrow> Inl e
      | Inr ls \<Rightarrow> Inr (concat ls))"

section \<open>Predicates of the properties\<close>

text \<open>
  The characters a slug is made of: lowercase letters, digits, the hyphen and the
  underscore (\<^verbatim>\<open>\w\<close> keeps the underscore).
\<close>

definition slug_char :: "codepoint \<Rightarrow> bool" where
  "slug_char c \<longleftrightarrow> is_lower c \<or> is_digit c \<or> c = hyphen \<or> c = underscore"

text \<open>A record is in sync when its slug is the slug of its own title.\<close>

definition in_sync :: "(str \<Rightarrow> str) \<Rightarrow> snippet \<Rightarrow> bool" where
  "in_sync nfkd r \<longleftrightarrow> slug r = Some (slugify nfkd (title r))"

text \<open>
  A call keeps the slug and the title of a row together when it writes both or
  neither: a call without \<^verbatim>\<open>update_fields\<close> writes every field.
\<close>

definition keeps_sync :: "save_args \<Rightarrow> bool" where
  "keeps_sync args \<longleftrightarrow>
     (py ''title'' \<in> set (written_fields args)) = (py ''slug'' \<in> set (written_fields args))"

text \<open>A slug that \<open>slugify\<close> has made, of some title.\<close>

definition slug_made :: "(str \<Rightarrow> str) \<Rightarrow> snippet \<Rightarrow> bool" where
  "slug_made nfkd r \<longleftrightarrow> (\<exists>t. slug r = Some (slugify nfkd t))"

section \<open>Facts about the string operations\<close>

lemma set_re_sub_runs:
  "set (re_sub_runs cls repl s) \<subseteq> set repl \<union> {c \<in> set s. \<not> cls c}"
proof (induction cls repl s rule: re_sub_runs.induct)
  case (1 cls repl)
  show ?case by simp
next
  case (2 cls repl c cs)
  show ?case
  proof (cases "cls c")
    case True
    have "set (dropWhile cls cs) \<subseteq> set cs"
      by (auto dest: set_dropWhileD)
    with 2(1) [OF True] True show ?thesis by auto
  next
    case False
    with 2(2) [OF False] show ?thesis by auto
  qed
qed

lemma set_strip: "set (strip chars s) \<subseteq> set s"
  by (auto simp: strip_def dest!: set_dropWhileD)

lemma lower_cp_not_upper: "\<not> is_upper (lower_cp c)"
  by (auto simp: lower_cp_def is_upper_def)

lemma slugify_chars:
  assumes "c \<in> set (slugify nfkd v)"
  shows "slug_char c"
proof -
  let ?v2 = "re_sub_delete (\<lambda>c. \<not> (is_word c \<or> is_space c \<or> c = hyphen))
               (lower (encode_ascii_ignore (nfkd v)))"
  from assms have "c \<in> set (re_sub_runs (\<lambda>c. c = hyphen \<or> is_space c) [hyphen] ?v2)"
    using set_strip by (fastforce simp: slugify_def slug_of_ascii_def Let_def)
  then have "c = hyphen \<or> (c \<in> set ?v2 \<and> \<not> (c = hyphen \<or> is_space c))"
    using set_re_sub_runs [of "\<lambda>c. c = hyphen \<or> is_space c" "[hyphen]" ?v2] by auto
  then show ?thesis
  proof
    assume "c = hyphen"
    then show ?thesis by (simp add: slug_char_def)
  next
    assume h: "c \<in> set ?v2 \<and> \<not> (c = hyphen \<or> is_space c)"
    then have "is_word c" and "\<exists>d. c = lower_cp d"
      by (auto simp: re_sub_delete_def lower_def)
    then show ?thesis
      using lower_cp_not_upper by (auto simp: is_word_def slug_char_def)
  qed
qed







lemmas char_defs = py_def hyphen_def underscore_def slash_def is_ascii_def is_upper_def
  is_lower_def is_digit_def is_word_def is_space_def lower_cp_def lower_def
  encode_ascii_ignore_def re_sub_delete_def strip_def

lemma re_sub_runs_all_cls:
  "list_all cls s \<Longrightarrow> re_sub_runs cls repl s = (if s = [] then [] else repl)"
proof (cases s)
  case Nil
  then show ?thesis by simp
next
  case (Cons c cs)
  assume "list_all cls s"
  with Cons have "cls c" and "dropWhile cls cs = []"
    by (auto simp: list_all_iff)
  with Cons show ?thesis by (simp del: dropWhile_eq_Nil_conv)
qed

lemma slugify_blank:
  assumes "list_all (\<lambda>c. c = hyphen \<or> is_space c) (encode_ascii_ignore (nfkd v))"
  shows "slugify nfkd v = []"
proof -
  let ?v1 = "encode_ascii_ignore (nfkd v)"
  have sp: "\<And>c. c = hyphen \<or> is_space c \<Longrightarrow> lower_cp c = c"
    by (auto simp: lower_cp_def is_upper_def is_space_def hyphen_def)
  from assms have l: "lower ?v1 = ?v1"
    by (auto simp: lower_def list_all_iff sp intro: map_idI)
  from assms have d: "re_sub_delete (\<lambda>c. \<not> (is_word c \<or> is_space c \<or> c = hyphen)) ?v1 = ?v1"
    by (auto simp: re_sub_delete_def list_all_iff filter_id_conv)
  have "slugify nfkd v = strip [hyphen, underscore]
          (re_sub_runs (\<lambda>c. c = hyphen \<or> is_space c) [hyphen] ?v1)"
    unfolding slugify_def slug_of_ascii_def Let_def l d ..
  also have "\<dots> = strip [hyphen, underscore] (if ?v1 = [] then [] else [hyphen])"
    using assms by (simp only: re_sub_runs_all_cls)
  also have "\<dots> = []"
    by (simp add: strip_def)
  finally show ?thesis .
qed

lemma is_space_ascii: "is_space c \<Longrightarrow> is_ascii c"
  by (auto simp: is_space_def is_ascii_def)

lemma slugify_whitespace_only:
  assumes "nfkd_fixes_ascii nfkd" and "list_all is_space t"
  shows "slugify nfkd t = []"
proof -
  from assms(2) have a: "list_all is_ascii t"
    by (auto simp: list_all_iff is_space_ascii)
  with assms(1) have "nfkd t = t" by (simp add: nfkd_fixes_ascii_def)
  with a have "encode_ascii_ignore (nfkd t) = t"
    by (simp add: encode_ascii_ignore_def list_all_iff)
  with assms(2) show ?thesis
    by (intro slugify_blank) (auto simp: list_all_iff)
qed

lemma slugify_call_returns: "slugify_call nfkd v = Inr (slugify nfkd v)"
  by (simp add: slugify_call_def slugify_def encode_ascii_def decode_ascii_def
      encode_ascii_ignore_def list_all_iff)

lemma slugify_unicode_space:
  assumes "nfkd_space_stays_blank nfkd" and "list_all is_unicode_space t"
  shows "slugify nfkd t = []"
proof (rule slugify_blank)
  from assms have "list_all (\<lambda>c. is_space c \<or> \<not> is_ascii c) (nfkd t)"
    by (simp add: nfkd_space_stays_blank_def)
  then show "list_all (\<lambda>c. c = hyphen \<or> is_space c) (encode_ascii_ignore (nfkd t))"
    by (auto simp: list_all_iff encode_ascii_ignore_def)
qed

lemma nfkd_of_space_blank:
  "is_unicode_space c \<Longrightarrow> is_space (nfkd_of_space c) \<or> \<not> is_ascii (nfkd_of_space c)"
  by (auto simp: is_unicode_space_def nfkd_of_space_def is_space_def is_ascii_def)

lemma nfkd_spaces_stays_blank: "nfkd_space_stays_blank nfkd_spaces"
  by (auto simp: nfkd_space_stays_blank_def nfkd_spaces_def list_all_iff
      dest: nfkd_of_space_blank)

lemma nfkd_spaces_fixes_ascii: "nfkd_fixes_ascii nfkd_spaces"
  by (auto simp: nfkd_fixes_ascii_def nfkd_spaces_def nfkd_of_space_def list_all_iff
      is_ascii_def intro!: map_idI)

subsection \<open>Runs of separators and words\<close>

lemma split_at_not_Nil: "split_at sep s \<noteq> []"
  by (induction s) (auto split: list.splits)

lemma split_at_Cons:
  "\<not> sep c \<Longrightarrow>
     split_at sep (c # cs) = (c # hd (split_at sep cs)) # tl (split_at sep cs)"
  using split_at_not_Nil [of sep cs] by (cases "split_at sep cs") auto


lemma split_at_hd_tl: "split_at sep s = hd (split_at sep s) # tl (split_at sep s)"
  using split_at_not_Nil [of sep s] by simp







section \<open>Facts about the store\<close>



lemma save_eq:
  "save nfkd rejects args self db
     = Model_save rejects args (self\<lparr>slug := Some (slugify nfkd (title self))\<rparr>) db"
  by (simp add: save_def slugify_call_returns)

lemma insert_row_cases:
  "insert_row rejects self row db = returned row (db @ [row]) \<or>
   (\<exists>e. insert_row rejects self row db = raising e self db)"
  by (auto simp: insert_row_def)

lemma Model_save_cases:
  "(\<exists>e. Model_save rejects args self db = raising e self db) \<or>
   (update_fields args = Some [] \<and> Model_save rejects args self db = returned self db) \<or>
   (pk self = None \<and> \<not> rejects (self\<lparr>pk := Some (next_pk db)\<rparr>) \<and>
      Model_save rejects args self db
        = returned (self\<lparr>pk := Some (next_pk db)\<rparr>) (db @ [self\<lparr>pk := Some (next_pk db)\<rparr>])) \<or>
   (\<exists>k. pk self = Some k \<and> \<not> list_ex (\<lambda>r. pk r = Some k) db \<and> \<not> rejects self \<and>
      Model_save rejects args self db = returned self (db @ [self])) \<or>
   (\<exists>k. pk self = Some k \<and> list_ex (\<lambda>r. pk r = Some k) db \<and>
      \<not> list_ex (\<lambda>r. pk r = Some k \<and> rejects r)
          (map (\<lambda>r. if pk r = Some k then write_fields (written_fields args) self r else r) db) \<and>
      Model_save rejects args self db
        = returned self
            (map (\<lambda>r. if pk r = Some k then write_fields (written_fields args) self r else r) db))"
proof (cases "pk self")
  case None
  then show ?thesis
    by (auto simp: Model_save_def insert_row_def Let_def)
next
  case (Some k)
  then show ?thesis
    by (auto simp: Model_save_def insert_row_def Let_def)
qed

lemma Model_save_self:
  "title (self_after (Model_save rejects args self db)) = title self \<and>
   slug (self_after (Model_save rejects args self db)) = slug self \<and>
   body (self_after (Model_save rejects args self db)) = body self"
  using Model_save_cases [of rejects args self db]
  by (auto simp: returned_def raising_def)

lemma Model_save_rows:
  assumes "r' \<in> set (db_after (Model_save rejects args self db))"
  shows "r' \<in> set db \<or>
         (title r' = title self \<and> slug r' = slug self) \<or>
         (\<exists>r \<in> set db. r' = write_fields (written_fields args) self r)"
  using Model_save_cases [of rejects args self db] assms
  by (auto simp: returned_def raising_def split: if_splits)





lemma save_self:
  "title (self_after (save nfkd rejects args self db)) = title self \<and>
   slug (self_after (save nfkd rejects args self db)) = Some (slugify nfkd (title self)) \<and>
   body (self_after (save nfkd rejects args self db)) = body self"
  using Model_save_self [of rejects args "self\<lparr>slug := Some (slugify nfkd (title self))\<rparr>" db]
  by (simp add: save_eq)


lemma write_fields_in_sync:
  "keeps_sync args \<Longrightarrow> in_sync nfkd self \<Longrightarrow> in_sync nfkd r \<Longrightarrow>
     in_sync nfkd (write_fields (written_fields args) self r)"
  by (auto simp: keeps_sync_def in_sync_def write_fields_def)

lemma write_fields_slug_made:
  "slug_made nfkd self \<Longrightarrow> slug_made nfkd r \<Longrightarrow> slug_made nfkd (write_fields fs self r)"
  by (auto simp: slug_made_def write_fields_def)

lemma save_preserves_sync:
  assumes "keeps_sync args" and "list_all (in_sync nfkd) db"
  shows "list_all (in_sync nfkd) (db_after (save nfkd rejects args self db))"
proof -
  let ?s = "self\<lparr>slug := Some (slugify nfkd (title self))\<rparr>"
  have s: "in_sync nfkd ?s"
    by (simp add: in_sync_def)
  have "in_sync nfkd r'" if "r' \<in> set (db_after (Model_save rejects args ?s db))" for r'
    using Model_save_rows [OF that] s assms write_fields_in_sync [OF assms(1) s]
    by (auto simp: list_all_iff in_sync_def)
  then show ?thesis
    by (simp add: save_eq list_all_iff)
qed

lemma save_preserves_slug_made:
  assumes "list_all (slug_made nfkd) db"
  shows "list_all (slug_made nfkd) (db_after (save nfkd rejects args self db))"
proof -
  let ?s = "self\<lparr>slug := Some (slugify nfkd (title self))\<rparr>"
  have s: "slug_made nfkd ?s"
    by (auto simp: slug_made_def)
  have "slug_made nfkd r'" if "r' \<in> set (db_after (Model_save rejects args ?s db))" for r'
    using Model_save_rows [OF that] s assms write_fields_slug_made [OF s]
    by (auto simp: list_all_iff slug_made_def)
  then show ?thesis
    by (simp add: save_eq list_all_iff)
qed

lemma save_all_preserves_sync:
  "list_all (\<lambda>c. keeps_sync (fst c)) calls \<Longrightarrow> list_all (in_sync nfkd) db \<Longrightarrow>
     list_all (in_sync nfkd) (save_all nfkd rejects calls db)"
proof (induction calls arbitrary: db)
  case Nil
  then show ?case by (simp add: save_all_def)
next
  case (Cons c calls)
  from Cons.prems have "list_all (in_sync nfkd) (db_after (save nfkd rejects (fst c) (snd c) db))"
    by (intro save_preserves_sync) simp_all
  moreover from Cons.prems have "list_all (\<lambda>c. keeps_sync (fst c)) calls"
    by simp
  ultimately have "list_all (in_sync nfkd)
      (save_all nfkd rejects calls (db_after (save nfkd rejects (fst c) (snd c) db)))"
    by (intro Cons.IH)
  then show ?case by (simp add: save_all_def)
qed

lemma save_all_preserves_slug_made:
  "list_all (slug_made nfkd) db \<Longrightarrow> list_all (slug_made nfkd) (save_all nfkd rejects calls db)"
proof (induction calls arbitrary: db)
  case Nil
  then show ?case by (simp add: save_all_def)
next
  case (Cons c calls)
  from Cons.prems have "list_all (slug_made nfkd) (db_after (save nfkd rejects (fst c) (snd c) db))"
    by (rule save_preserves_slug_made)
  then have "list_all (slug_made nfkd)
      (save_all nfkd rejects calls (db_after (save nfkd rejects (fst c) (snd c) db)))"
    by (rule Cons.IH)
  then show ?case by (simp add: save_all_def)
qed

section \<open>Facts about the handlers and the routes\<close>

lemma objects_get_cases:
  "objects_get db s =
     (if filter (\<lambda>r. slug r = Some s) db = [] then Inl DoesNotExist
      else if length (filter (\<lambda>r. slug r = Some s) db) = 1
      then Inr (hd (filter (\<lambda>r. slug r = Some s) db))
      else Inl MultipleObjectsReturned)"
  by (auto simp: objects_get_def split: list.splits)

lemma snippet_detail_cases:
  "snippet_detail db s =
     (if filter (\<lambda>r. slug r = Some s) db = [] then Inl Http404
      else if length (filter (\<lambda>r. slug r = Some s) db) = 1
      then Inr (HttpResponse (py ''the detailview for slug of '' @ s))
      else Inl MultipleObjectsReturned)"
  by (simp add: snippet_detail_def get_object_or_404_def objects_get_cases)

lemma resolve_about: "resolve urlpatterns (py ''/about/'') = Some (Snippet_detail, [(py ''slug'', py ''about'')])"
  by (simp add: resolve_def urlpatterns_def path_def char_defs)

lemma reverse_about: "reverse (py ''about'') = Inr (py ''/about/'')"
  by (simp add: reverse_def urlpatterns_def path_def char_defs)

lemma try_lengths_Some:
  "try_lengths f n = Some r \<Longrightarrow> \<exists>k. 0 < k \<and> k \<le> n \<and> f k = Some r"
proof (induction n)
  case 0
  then show ?case by simp
next
  case (Suc n)
  then show ?case
    by (cases "f (Suc n)") (auto intro: le_SucI)
qed

lemma match_literal:
  "match_route [Literal l] s = Some kw \<longleftrightarrow> s = l \<and> kw = []"
proof -
  have "take (length l) s = l \<and> drop (length l) s = [] \<longleftrightarrow> s = l"
    by (metis append_Nil2 append_take_drop_id drop_all order_refl take_all)
  then show ?thesis by auto
qed

lemma match_param_slash:
  assumes "match_route [Param conv n, Literal [slash]] s = Some kw"
  shows "suffix [slash] s"
proof -
  from assms obtain k where "(case match_route [Literal [slash]] (drop k s) of
      None \<Rightarrow> None | Some kw \<Rightarrow> Some ((n, take k s) # kw)) = Some kw"
    by (auto dest: try_lengths_Some)
  then have "drop k s = [slash]"
    by (auto simp: match_literal split: option.splits simp del: match_route.simps)
  then have "s = take k s @ [slash]"
    by (metis append_take_drop_id)
  then show ?thesis
    by (metis suffixI)
qed

lemma py_slash: "py ''/'' = [slash]"
  by (simp add: py_def slash_def)

lemma first_match_slash:
  assumes "first_match urlpatterns s = Some m"
  shows "suffix [slash] s"
proof (cases "match_route [Param SlugConverter (py ''slug''), Literal [slash]] s")
  case (Some kw)
  then show ?thesis by (rule match_param_slash)
next
  case None
  with assms have "s = py ''about/''"
    by (auto simp: urlpatterns_def path_def py_slash match_literal
        split: option.splits simp del: match_route.simps)
  then show ?thesis
    by (simp add: py_def slash_def suffix_def)
qed

lemma resolve_slash:
  assumes "resolve urlpatterns p = Some m"
  shows "suffix [slash] p \<and> p \<noteq> [slash]"
proof -
  from assms obtain s where p: "p = slash # s" and m: "first_match urlpatterns s = Some m"
    by (auto simp: resolve_def split: list.splits if_splits)
  from m have "suffix [slash] s" by (rule first_match_slash)
  with p show ?thesis
    by (auto simp: suffix_def)
qed

lemma about_unreachable: "resolve urlpatterns p \<noteq> Some (About, kw)"
proof
  assume "resolve urlpatterns p = Some (About, kw)"
  then obtain s where p: "p = slash # s" and m: "first_match urlpatterns s = Some (About, kw)"
    by (auto simp: resolve_def split: list.splits if_splits)
  from m have "s = py ''about/''"
    by (auto simp: urlpatterns_def path_def match_literal
        split: option.splits simp del: match_route.simps)
  with p have "p = py ''/about/''" by (simp add: py_def slash_def)
  with \<open>resolve urlpatterns p = Some (About, kw)\<close> show False
    by (simp add: resolve_about)
qed

lemma slug_char_not_slash: "\<not> slug_char slash"
  by (simp add: slug_char_def char_defs)

lemma slugify_no_slash: "slash \<notin> set (slugify nfkd t)"
  using slugify_chars slug_char_not_slash by blast

lemma in_sync_url:
  assumes "in_sync nfkd r"
  shows "get_absolute_url r = slash # slugify nfkd (title r)"
    and "resolve urlpatterns (get_absolute_url r) = None"
proof -
  from assms show u: "get_absolute_url r = slash # slugify nfkd (title r)"
    by (simp add: get_absolute_url_def format_slug_def in_sync_def py_slash)
  show "resolve urlpatterns (get_absolute_url r) = None"
  proof (rule ccontr)
    assume "resolve urlpatterns (get_absolute_url r) \<noteq> None"
    then obtain m where "first_match urlpatterns (slugify nfkd (title r)) = Some m"
      by (auto simp: u resolve_def)
    then have "suffix [slash] (slugify nfkd (title r))"
      by (rule first_match_slash)
    then have "slash \<in> set (slugify nfkd (title r))"
      by (auto simp: suffix_def)
    then show False
      using slugify_no_slash by blast
  qed
qed

lemma collect_Inr: "collect (map (\<lambda>x. Inr (f x)) xs) = Inr (map f xs)"
  by (induction xs) auto

lemma locations_SnippetSitemap: "locations SnippetSitemap db = Inr (map get_absolute_url db)"
proof -
  have eq: "SnippetSitemap_location = (\<lambda>x. Inr (get_absolute_url x))"
    by (rule ext) (simp add: SnippetSitemap_location_def)
  show ?thesis
    unfolding locations_def SnippetSitemap_items_def eq by (simp add: collect_Inr)
qed

lemma locations_StaticViewSitemap: "locations StaticViewSitemap db = Inr [py ''/about/'']"
  by (simp add: locations_def StaticViewSitemap_items_def StaticViewSitemap_location_def
      reverse_about)

lemma slug_made_url:
  assumes "slug_made nfkd r"
  shows "\<exists>t. get_absolute_url r = slash # slugify nfkd t"
    and "slash \<notin> set (format_slug (slug r))"
    and "resolve urlpatterns (get_absolute_url r) = None"
proof -
  from assms obtain t where t: "slug r = Some (slugify nfkd t)"
    by (auto simp: slug_made_def)
  then have u: "get_absolute_url r = slash # slugify nfkd t"
    by (simp add: get_absolute_url_def format_slug_def py_slash)
  then show "\<exists>t. get_absolute_url r = slash # slugify nfkd t" ..
  show "slash \<notin> set (format_slug (slug r))"
    using t slugify_no_slash by (simp add: format_slug_def)
  show "resolve urlpatterns (get_absolute_url r) = None"
  proof (rule ccontr)
    assume "resolve urlpatterns (get_absolute_url r) \<noteq> None"
    then obtain m where "first_match urlpatterns (slugify nfkd t) = Some m"
      by (auto simp: u resolve_def)
    then have "suffix [slash] (slugify nfkd t)"
      by (rule first_match_slash)
    then have "slash \<in> set (slugify nfkd t)"
      by (auto simp: suffix_def)
    then show False
      using slugify_no_slash by blast
  qed
qed

lemma py_eq_iff: "py a = py b \<longleftrightarrow> a = b"
proof -
  have "inj (of_char :: char \<Rightarrow> nat)"
    by (simp add: inj_def)
  then show ?thesis
    by (simp add: py_def inj_map_eq_map)
qed

lemmas store_defs = save_all_def save_eq Model_save_def insert_row_def returned_def
  raising_def next_pk_def pk_val_def stored_def no_args_def written_fields_def
  all_fields_def write_fields_def rejects_nothing_def py_eq_iff Let_def

section \<open>The properties\<close>

subsection \<open>Dispatch of \<^verbatim>\<open>/about/\<close>\<close>

text \<open>
  C1 says that a request for the path \<^verbatim>\<open>/about/\<close> is dispatched to the about handler,
  the patterns being tried in the order of \<open>urlpatterns\<close>. The list declares the slug
  route first, and \<^verbatim>\<open>about\<close> is a slug: the first pattern matches, so the request goes
  to \<open>snippet_detail\<close> with the slug \<^verbatim>\<open>about\<close>, and is answered like any other slug (not
  found, on an empty store). The route of the about handler is never reached.
\<close>

theorem about_path_goes_to_detail:
  "resolve urlpatterns (py ''/about/'') = Some (Snippet_detail, [(py ''slug'', py ''about'')]) \<and>
   get_response db (py ''/about/'') = snippet_detail db (py ''about'') \<and>
   get_response [] (py ''/about/'') = Inl Http404"
  by (simp add: get_response_def resolve_about call_view_def snippet_detail_cases)

subsection \<open>The shape of a slug\<close>




subsection \<open>The slug is written in sync with the title\<close>




subsection \<open>The detail handler on zero or one match\<close>

text \<open>
  C4: for every slug \<open>s\<close>, the detail handler ends in \<^verbatim>\<open>Http404\<close> (status 404 for the
  client) exactly when no stored Snippet has the slug \<open>s\<close>; when exactly one has it, the
  handler returns a response of status 200 whose body ends with \<open>s\<close>.
\<close>

theorem detail_404_iff_no_match:
  "(snippet_detail db s = Inl Http404 \<longleftrightarrow> \<not> list_ex (\<lambda>r. slug r = Some s) db) \<and>
   (client_status (snippet_detail db s) = 404 \<longleftrightarrow> \<not> list_ex (\<lambda>r. slug r = Some s) db) \<and>
   (length (filter (\<lambda>r. slug r = Some s) db) = 1 \<longrightarrow>
      snippet_detail db s = Inr (HttpResponse (py ''the detailview for slug of '' @ s)) \<and>
      client_status (snippet_detail db s) = 200 \<and>
      suffix s (content (HttpResponse (py ''the detailview for slug of '' @ s))))"
  by (auto simp: snippet_detail_cases client_status_def HttpResponse_def list_ex_iff
      filter_empty_conv suffix_def)

theorem detail_404_iff_no_match_witness:
  "snippet_detail [\<lparr>pk = Some 1, title = py ''Test'', slug = Some (py ''test''), body = py ''X''\<rparr>]
     (py ''test'') = Inr \<lparr>status_code = 200, content = py ''the detailview for slug of test''\<rparr> \<and>
   snippet_detail [\<lparr>pk = Some 1, title = py ''Test'', slug = Some (py ''test''), body = py ''X''\<rparr>]
     (py ''missing'') = Inl Http404"
  using detail_404_iff_no_match [of
      "[\<lparr>pk = Some 1, title = py ''Test'', slug = Some (py ''test''), body = py ''X''\<rparr>]"
      "py ''test''"]
    detail_404_iff_no_match [of
      "[\<lparr>pk = Some 1, title = py ''Test'', slug = Some (py ''test''), body = py ''X''\<rparr>]"
      "py ''missing''"]
  by (simp add: py_def HttpResponse_def)

subsection \<open>Saving twice\<close>




subsection \<open>The scenarios of slug derivation\<close>

text \<open>
  C6: the title \<^verbatim>\<open>Hello World\<close> derives the slug \<^verbatim>\<open>hello-world\<close>, and the title
  \<^verbatim>\<open>  Multiple   Spaces!! \<close> derives the slug \<^verbatim>\<open>multiple-spaces\<close>, as \<open>slugify\<close> computes
  them and as \<open>save\<close> sets them. Both titles are ASCII, so the one fact used of the
  normalisation is that it leaves ASCII text as it is.
\<close>

theorem scenario_slugs:
  assumes "nfkd_fixes_ascii nfkd"
  shows "slugify nfkd (py ''Hello World'') = py ''hello-world'' \<and>
         slugify nfkd (py ''  Multiple   Spaces!! '') = py ''multiple-spaces'' \<and>
         slug (self_after (save nfkd rejects args
             \<lparr>pk = None, title = py ''Hello World'', slug = None, body = b\<rparr> db))
           = Some (py ''hello-world'') \<and>
         slug (self_after (save nfkd rejects args
             \<lparr>pk = None, title = py ''  Multiple   Spaces!! '', slug = None, body = b\<rparr> db))
           = Some (py ''multiple-spaces'')"
proof -
  have "nfkd (py ''Hello World'') = py ''Hello World''"
    using assms by (simp add: nfkd_fixes_ascii_def py_def is_ascii_def)
  then have 1: "slugify nfkd (py ''Hello World'') = py ''hello-world''"
    by (simp add: slugify_def slug_of_ascii_def char_defs)
  have "nfkd (py ''  Multiple   Spaces!! '') = py ''  Multiple   Spaces!! ''"
    using assms by (simp add: nfkd_fixes_ascii_def py_def is_ascii_def)
  then have 2: "slugify nfkd (py ''  Multiple   Spaces!! '') = py ''multiple-spaces''"
    by (simp add: slugify_def slug_of_ascii_def char_defs)
  have "slug (self_after (save nfkd rejects args self db)) = Some (slugify nfkd (title self))"
    for self
    using save_self [of nfkd rejects args self db] by simp
  with 1 2 show ?thesis by simp
qed

theorem scenario_slugs_witness:
  "slugify id (py ''Hello World'') = py ''hello-world'' \<and>
   slugify id (py ''  Multiple   Spaces!! '') = py ''multiple-spaces''"
proof -
  have "nfkd_fixes_ascii id"
    by (simp add: nfkd_fixes_ascii_def)
  from scenario_slugs [OF this] show ?thesis by simp
qed

subsection \<open>The sitemap of an empty store\<close>

text \<open>
  C7: with no Snippet stored, the enumeration over the two sources, in either order,
  yields exactly one location: the path \<^verbatim>\<open>/about/\<close>, which is what \<open>reverse\<close> makes of
  the route name \<^verbatim>\<open>about\<close>.
\<close>

theorem empty_store_sitemap:
  "sitemap_urls [StaticViewSitemap, SnippetSitemap] [] = Inr [py ''/about/''] \<and>
   sitemap_urls [SnippetSitemap, StaticViewSitemap] [] = Inr [py ''/about/''] \<and>
   StaticViewSitemap_items = [py ''about''] \<and>
   StaticViewSitemap_location (py ''about'') = reverse (py ''about'') \<and>
   reverse (py ''about'') = Inr (py ''/about/'') \<and>
   locations SnippetSitemap [] = Inr []"
  by (simp add: sitemap_urls_def locations_SnippetSitemap locations_StaticViewSitemap
      StaticViewSitemap_items_def StaticViewSitemap_location_def reverse_about)

subsection \<open>Blank titles\<close>

text \<open>
  C8: slug derivation raises on no title: the call of \<open>slugify\<close> returns for every
  string, the steps that could raise never do. And a title that is empty or made of
  white space only (the white space of Unicode, as Python has it) has the empty slug,
  which is what \<open>save\<close> then sets. White space outside ASCII passes through the
  normalisation, of which the theorem uses that it leaves no ASCII character but white
  space in the normal form of white space.
\<close>

theorem blank_title_empty_slug:
  assumes "nfkd_space_stays_blank nfkd" and "list_all is_unicode_space t"
  shows "slugify_call nfkd v = Inr (slugify nfkd v) \<and>
         slugify_call nfkd t = Inr [] \<and>
         slugify nfkd t = [] \<and> slugify nfkd [] = [] \<and>
         slug (self_after (save nfkd rejects args (self\<lparr>title := t\<rparr>) db)) = Some []"
proof -
  have 1: "slugify nfkd t = []"
    using assms by (rule slugify_unicode_space)
  have 2: "slugify nfkd [] = []"
    using assms(1) by (rule slugify_unicode_space) simp
  have "slug (self_after (save nfkd rejects args (self\<lparr>title := t\<rparr>) db))
      = Some (slugify nfkd t)"
    using save_self [of nfkd rejects args "self\<lparr>title := t\<rparr>" db] by simp
  with 1 2 show ?thesis
    by (simp add: slugify_call_returns)
qed

theorem blank_title_empty_slug_witness:
  "list_all is_unicode_space [160, 8195, 32, 9, 8232, 12288] \<and>
   slugify_call nfkd_spaces [160, 8195, 32, 9, 8232, 12288] = Inr [] \<and>
   slugify nfkd_spaces [] = [] \<and>
   slugify_call nfkd_spaces (py ''Hello World'') = Inr (py ''hello-world'')"
proof -
  have b: "list_all is_unicode_space [160, 8195, 32, 9, 8232, 12288]"
    by (simp add: is_unicode_space_def is_space_def)
  have h: "slugify nfkd_spaces (py ''Hello World'') = py ''hello-world''"
    by (simp add: slugify_def slug_of_ascii_def nfkd_spaces_def nfkd_of_space_def char_defs)
  from blank_title_empty_slug [OF nfkd_spaces_stays_blank b, of "py ''Hello World''"] b h
  show ?thesis by simp
qed

subsection \<open>The sitemap's Snippet locations and the detail route\<close>

text \<open>
  C9: in a store filled by calls of \<open>save\<close>, the location the sitemap emits for a
  Snippet is \<open>get_absolute_url\<close>, which is \<^verbatim>\<open>/\<close> followed by the slug and nothing after
  it, and the slug holds no slash (it is a slug that \<open>slugify\<close> made; the slug of the
  row's own title when the calls kept the two together); every path that is dispatched
  to the detail handler ends with a slash after the slug; so no location of a Snippet
  is a path the detail route (or any route) matches.
\<close>

theorem snippet_locations_not_routed:
  assumes "db = save_all nfkd rejects calls []"
  shows "locations SnippetSitemap db = Inr (map get_absolute_url db) \<and>
         (\<forall>r \<in> set db.
            (\<exists>t. get_absolute_url r = slash # slugify nfkd t) \<and>
            slash \<notin> set (format_slug (slug r)) \<and>
            resolve urlpatterns (get_absolute_url r) = None) \<and>
         (list_all (\<lambda>c. keeps_sync (fst c)) calls \<longrightarrow>
            (\<forall>r \<in> set db.
               get_absolute_url r = slash # slugify nfkd (title r) \<and>
               slash \<notin> set (slugify nfkd (title r)))) \<and>
         (\<forall>p kw. resolve urlpatterns p = Some (Snippet_detail, kw) \<longrightarrow>
            suffix [slash] p \<and> p \<noteq> [slash])"
proof -
  have "list_all (slug_made nfkd) db"
    unfolding assms by (rule save_all_preserves_slug_made) simp
  then have made: "slug_made nfkd r" if "r \<in> set db" for r
    using that by (simp add: list_all_iff)
  have rows: "\<forall>r \<in> set db.
      (\<exists>t. get_absolute_url r = slash # slugify nfkd t) \<and>
      slash \<notin> set (format_slug (slug r)) \<and>
      resolve urlpatterns (get_absolute_url r) = None"
    using made slug_made_url by blast
  have sync: "\<forall>r \<in> set db.
      get_absolute_url r = slash # slugify nfkd (title r) \<and>
      slash \<notin> set (slugify nfkd (title r))"
    if "list_all (\<lambda>c. keeps_sync (fst c)) calls"
  proof -
    have "list_all (in_sync nfkd) db"
      unfolding assms using that by (rule save_all_preserves_sync) simp
    then have "in_sync nfkd r" if "r \<in> set db" for r
      using that by (simp add: list_all_iff)
    then show ?thesis
      using in_sync_url(1) slugify_no_slash by blast
  qed
  have routed: "\<forall>p kw. resolve urlpatterns p = Some (Snippet_detail, kw) \<longrightarrow>
      suffix [slash] p \<and> p \<noteq> [slash]"
    using resolve_slash by blast
  from rows sync routed locations_SnippetSitemap [of db] show ?thesis
    by blast
qed

theorem snippet_locations_not_routed_witness:
  "locations SnippetSitemap
     (save_all id rejects_nothing
        [(no_args, \<lparr>pk = None, title = py ''Hello World'', slug = None, body = py ''X''\<rparr>)] [])
     = Inr [py ''/hello-world''] \<and>
   resolve urlpatterns (py ''/hello-world'') = None \<and>
   resolve urlpatterns (py ''/hello-world/'')
     = Some (Snippet_detail, [(py ''slug'', py ''hello-world'')]) \<and>
   suffix [slash] (py ''/hello-world/'')"
proof -
  let ?calls = "[(no_args, \<lparr>pk = None, title = py ''Hello World'', slug = None, body = py ''X''\<rparr>)]"
  let ?r = "\<lparr>pk = Some 1, title = py ''Hello World'', slug = Some (py ''hello-world''),
      body = py ''X''\<rparr>"
  let ?db = "save_all id rejects_nothing ?calls []"
  have s: "slugify id (py ''Hello World'') = py ''hello-world''"
    by (simp add: slugify_def slug_of_ascii_def char_defs)
  have db: "?db = [?r]"
    by (simp add: store_defs s)
  have m: "resolve urlpatterns (py ''/hello-world/'')
      = Some (Snippet_detail, [(py ''slug'', py ''hello-world'')])"
    by (simp add: resolve_def urlpatterns_def path_def char_defs)
  have u: "get_absolute_url ?r = py ''/hello-world''"
    by (simp add: get_absolute_url_def format_slug_def py_def)
  have T: "locations SnippetSitemap ?db = Inr (map get_absolute_url ?db) \<and>
      (\<forall>r \<in> set ?db.
         (\<exists>t. get_absolute_url r = slash # slugify id t) \<and>
         slash \<notin> set (format_slug (slug r)) \<and>
         resolve urlpatterns (get_absolute_url r) = None) \<and>
      (list_all (\<lambda>c. keeps_sync (fst c)) ?calls \<longrightarrow>
         (\<forall>r \<in> set ?db.
            get_absolute_url r = slash # slugify id (title r) \<and>
            slash \<notin> set (slugify id (title r)))) \<and>
      (\<forall>p kw. resolve urlpatterns p = Some (Snippet_detail, kw) \<longrightarrow>
         suffix [slash] p \<and> p \<noteq> [slash])"
    by (rule snippet_locations_not_routed) (rule refl)
  have "?r \<in> set ?db"
    by (simp only: db list.set_intros)
  with T have "resolve urlpatterns (get_absolute_url ?r) = None"
    by blast
  then have R: "resolve urlpatterns (py ''/hello-world'') = None"
    by (simp only: u)
  from T have "locations SnippetSitemap ?db = Inr (map get_absolute_url ?db)"
    by blast
  then have L: "locations SnippetSitemap ?db = Inr [py ''/hello-world'']"
    by (simp only: db u list.map)
  from T m have S: "suffix [slash] (py ''/hello-world/'')"
    by blast
  from L R m S show ?thesis
    by (intro conjI)
qed

subsection \<open>The detail handler on several matches\<close>

text \<open>
  C10: when more than one stored Snippet has the slug \<open>s\<close>, the lookup raises
  \<^verbatim>\<open>MultipleObjectsReturned\<close>, which is not the not-found signal; the detail handler
  does not catch it, so it neither answers 404 nor answers with a first match: the
  exception leaves the handler and the client sees a server error.
\<close>

theorem detail_multiple_objects:
  assumes "1 < length (filter (\<lambda>r. slug r = Some s) db)"
  shows "objects_get db s = Inl MultipleObjectsReturned \<and>
         MultipleObjectsReturned \<noteq> DoesNotExist \<and>
         snippet_detail db s = Inl MultipleObjectsReturned \<and>
         snippet_detail db s \<noteq> Inl Http404 \<and>
         client_status (snippet_detail db s) = 500"
  using assms by (auto simp: snippet_detail_cases objects_get_cases client_status_def)

theorem detail_multiple_objects_witness:
  "save_all id rejects_nothing
     [(no_args, \<lparr>pk = None, title = py ''Test'', slug = None, body = py ''X''\<rparr>),
      (no_args, \<lparr>pk = None, title = py ''test'', slug = None, body = py ''Y''\<rparr>)] []
     = [\<lparr>pk = Some 1, title = py ''Test'', slug = Some (py ''test''), body = py ''X''\<rparr>,
        \<lparr>pk = Some 2, title = py ''test'', slug = Some (py ''test''), body = py ''Y''\<rparr>] \<and>
   snippet_detail
     [\<lparr>pk = Some 1, title = py ''Test'', slug = Some (py ''test''), body = py ''X''\<rparr>,
      \<lparr>pk = Some 2, title = py ''test'', slug = Some (py ''test''), body = py ''Y''\<rparr>]
     (py ''test'') = Inl MultipleObjectsReturned"
proof -
  have s: "slugify id (py ''Test'') = py ''test''" "slugify id (py ''test'') = py ''test''"
    by (simp_all add: slugify_def slug_of_ascii_def char_defs)
  have db: "save_all id rejects_nothing
     [(no_args, \<lparr>pk = None, title = py ''Test'', slug = None, body = py ''X''\<rparr>),
      (no_args, \<lparr>pk = None, title = py ''test'', slug = None, body = py ''Y''\<rparr>)] []
     = [\<lparr>pk = Some 1, title = py ''Test'', slug = Some (py ''test''), body = py ''X''\<rparr>,
        \<lparr>pk = Some 2, title = py ''test'', slug = Some (py ''test''), body = py ''Y''\<rparr>]"
    by (simp add: store_defs s)
  from detail_multiple_objects [of "py ''test''"
      "[\<lparr>pk = Some 1, title = py ''Test'', slug = Some (py ''test''), body = py ''X''\<rparr>,
        \<lparr>pk = Some 2, title = py ''test'', slug = Some (py ''test''), body = py ''Y''\<rparr>]"] db
  show ?thesis by simp
qed

end
